theory Spec2Isabelle
  imports Complex_Main
begin

section \<open>Python values, exceptions and strings\<close>

text \<open>
  The exceptions that the functions of \<^verbatim>\<open>scripts/api.py\<close> raise or let through.
  \<open>HTTPException status detail\<close> is FastAPI's exception; \<open>DecodeError\<close> stands for what
  \<^verbatim>\<open>base64.b64decode\<close> and \<^verbatim>\<open>Image.open\<close> raise themselves where nothing wraps them.
\<close>

datatype error =
    HTTPException nat string
  | IndexError
  | KeyError
  | ValueError
  | AttributeError
  | ValidationError
  | DecodeError

type_synonym bytes = string

definition bind_err :: "error + 'a \<Rightarrow> ('a \<Rightarrow> error + 'b) \<Rightarrow> error + 'b" where
  "bind_err m f = (case m of Inl e \<Rightarrow> Inl e | Inr x \<Rightarrow> f x)"

text \<open>
  \<open>map_err f xs\<close> is \<^verbatim>\<open>[f(x) for x in xs]\<close> and \<^verbatim>\<open>list(map(f, xs))\<close> for an \<open>f\<close> that may
  raise: the first exception ends the traversal.
\<close>

fun map_err :: "('a \<Rightarrow> error + 'b) \<Rightarrow> 'a list \<Rightarrow> error + 'b list" where
  "map_err f [] = Inr []"
| "map_err f (x # xs) = bind_err (f x) (\<lambda>y. bind_err (map_err f xs) (\<lambda>ys. Inr (y # ys)))"

text \<open>\<^verbatim>\<open>xs[i]\<close> for a non-negative constant index: IndexError out of range.\<close>

definition getitem :: "'a list \<Rightarrow> nat \<Rightarrow> error + 'a" where
  "getitem xs i = (if i < length xs then Inr (xs ! i) else Inl IndexError)"


text \<open>\<^verbatim>\<open>s.startswith(p)\<close>.\<close>

definition startswith :: "string \<Rightarrow> string \<Rightarrow> bool" where
  "startswith s p = (take (length p) s = p)"

text \<open>\<^verbatim>\<open>s.split(c)\<close> for a separator of one character: never the empty list.\<close>

fun split :: "string \<Rightarrow> char \<Rightarrow> string list" where
  "split [] c = [[]]"
| "split (x # xs) c =
     (if x = c then [] # split xs c
      else (case split xs c of [] \<Rightarrow> [[x]] | w # ws \<Rightarrow> (x # w) # ws))"

text \<open>
  \<^verbatim>\<open>s.lower()\<close> on the ASCII letters. Its uses compare the lowered string with an ASCII
  word none of whose letters is the lower case of a letter outside ASCII.
\<close>

definition lower_char :: "char \<Rightarrow> char" where
  "lower_char c =
     (case map_of (zip ''ABCDEFGHIJKLMNOPQRSTUVWXYZ'' ''abcdefghijklmnopqrstuvwxyz'') c of
        Some l \<Rightarrow> l
      | None \<Rightarrow> c)"

definition lower :: "string \<Rightarrow> string" where
  "lower s = map lower_char s"

section \<open>Decoding images\<close>

text \<open>
  The two library calls of \<^verbatim>\<open>Image.open(io.BytesIO(base64.b64decode(encoding)))\<close> are
  parameters: each returns \<open>None\<close> where the library raises.
\<close>

record 'img codec =
  b64decode :: "string \<Rightarrow> bytes option"
  Image_open :: "bytes \<Rightarrow> 'img option"

definition open_b64 :: "'img codec \<Rightarrow> string \<Rightarrow> 'img option" where
  "open_b64 cd encoding =
     (case b64decode cd encoding of None \<Rightarrow> None | Some bs \<Rightarrow> Image_open cd bs)"

text \<open>
  \<^verbatim>\<open>encoding.split(";")[1].split(",")[1]\<close> when the text starts with \<^verbatim>\<open>data:image/\<close>. The
  two subscripts are outside the \<^verbatim>\<open>try\<close> block of \<^verbatim>\<open>decode_base64_to_image\<close>.
\<close>

definition strip_data_uri :: "string \<Rightarrow> error + string" where
  "strip_data_uri encoding =
     (if startswith encoding ''data:image/''
      then bind_err (getitem (split encoding CHR '';'') 1) (\<lambda>s. getitem (split s CHR '','') 1)
      else Inr encoding)"

definition decode_base64_to_image :: "'img codec \<Rightarrow> string \<Rightarrow> error + 'img" where
  "decode_base64_to_image cd encoding =
     bind_err (strip_data_uri encoding) (\<lambda>encoding.
       case open_b64 cd encoding of
         Some im \<Rightarrow> Inr im
       | None \<Rightarrow> Inl (HTTPException 500 ''Invalid encoded image''))"

section \<open>Arrays\<close>

text \<open>
  A numpy array as its element type, its shape and its elements in row-major order.
  \<open>Int64\<close> is the platform's default integer type, the one of \<^verbatim>\<open>np.array(0)\<close>.
\<close>

datatype dtype = Uint8 | Int64 | Float64

record ndarray =
  dtype :: dtype
  shape :: "nat list"
  data :: "int list"

text \<open>\<^verbatim>\<open>a.astype('uint8')\<close> on integer elements: each one modulo 256.\<close>

definition astype_uint8 :: "ndarray \<Rightarrow> ndarray" where
  "astype_uint8 a = a\<lparr>dtype := Uint8, data := map (\<lambda>v. v mod 256) (data a)\<rparr>"


text \<open>\<^verbatim>\<open>np.zeros(shape=s).astype('uint8')\<close>.\<close>

definition zeros_uint8 :: "nat list \<Rightarrow> ndarray" where
  "zeros_uint8 s = astype_uint8 \<lparr>dtype = Float64, shape = s, data = replicate (prod_list s) 0\<rparr>"

text \<open>The double \<^verbatim>\<open>np.pi\<close>, exactly.\<close>

definition np_pi :: real where
  "np_pi = 884279719003555 / 281474976710656"

section \<open>The collaborators\<close>

text \<open>
  One element of a script-argument list. \<open>AImage image mask\<close> is the dictionary
  \<^verbatim>\<open>{"image": image, "mask": mask}\<close>, with \<open>None\<close> for Python's \<^verbatim>\<open>None\<close>.
\<close>

datatype arg =
    ABool bool
  | AStr string
  | AFloat real
  | AInt int
  | AImage "ndarray option" ndarray

text \<open>
  What reaches \<^verbatim>\<open>encode_to_base64\<close>: a string, an object whose type is exactly
  \<^verbatim>\<open>Image.Image\<close>, an array, or anything else.
\<close>

datatype 'img pyval = Str string | Pil 'img | Nd ndarray | Other

text \<open>
  The object \<^verbatim>\<open>p\<close> that \<^verbatim>\<open>img2img\<close> hands to the generation pipeline: the decoded
  \<^verbatim>\<open>init_images\<close> and \<^verbatim>\<open>mask\<close>, the attributes set from \<^verbatim>\<open>cn_args\<close>, \<^verbatim>\<open>script_args\<close>, the
  entry \<^verbatim>\<open>"Mask blur"\<close> of \<^verbatim>\<open>extra_generation_params\<close>, and in \<open>p_params\<close> every other
  argument of the constructor, passed on as received.
\<close>

record ('img, 'g) processing =
  p_init_images :: "'img list"
  p_mask :: "(string + 'img) option"
  p_mask_blur :: int
  p_params :: 'g
  control_net_enabled :: bool
  control_net_module :: string
  control_net_model :: string
  control_net_weight :: real
  control_net_image :: "ndarray \<times> ndarray"
  control_net_scribble_mode :: bool
  control_net_resize_mode :: string
  control_net_rgbbgr_mode :: bool
  control_net_lowvram :: bool
  control_net_pres :: int
  control_net_pthr_a :: real
  control_net_pthr_b :: real
  control_net_guidance_strength :: real
  control_net_guess_mode :: bool
  control_net_api_access :: bool
  p_script_args :: "arg list"
  extra_mask_blur :: int

text \<open>
  The libraries, the annotators of \<^verbatim>\<open>scripts.processor\<close>, the host's options and its
  generation pipeline are outside this module: they are the fields of an environment.
  \<open>np_array im\<close> is \<^verbatim>\<open>np.array(im)\<close>; \<open>save fmt im\<close> is the base64 text of the bytes
  that \<^verbatim>\<open>im.save\<close> writes in the format \<open>fmt\<close>; \<open>process_images p\<close> gives the images of
  the result and its \<^verbatim>\<open>js()\<close>. Apart from the two calls of the codec, the calls into the
  collaborators are taken to return.
\<close>

record ('img, 'g) env =
  codec :: "'img codec"
  np_array :: "'img \<Rightarrow> ndarray"
  Image_fromarray :: "ndarray \<Rightarrow> 'img"
  samples_format :: string
  save :: "string \<Rightarrow> 'img \<Rightarrow> string"
  canny :: "ndarray \<Rightarrow> int \<Rightarrow> real \<Rightarrow> real \<Rightarrow> 'img pyval"
  hed :: "ndarray \<Rightarrow> int \<Rightarrow> 'img pyval"
  mlsd :: "ndarray \<Rightarrow> int \<Rightarrow> real \<Rightarrow> real \<Rightarrow> 'img pyval"
  midas :: "ndarray \<Rightarrow> int \<Rightarrow> real \<Rightarrow> 'img pyval"
  midas_normal :: "ndarray \<Rightarrow> int \<Rightarrow> real \<Rightarrow> real \<Rightarrow> 'img pyval"
  leres :: "ndarray \<Rightarrow> int \<Rightarrow> real \<Rightarrow> real \<Rightarrow> real \<Rightarrow> 'img pyval"
  openpose :: "ndarray \<Rightarrow> int \<Rightarrow> bool \<Rightarrow> 'img pyval"
  fake_scribble :: "ndarray \<Rightarrow> int \<Rightarrow> 'img pyval"
  uniformer :: "ndarray \<Rightarrow> int \<Rightarrow> 'img pyval"
  process_images :: "('img, 'g) processing \<Rightarrow> 'img pyval list \<times> string"
  do_not_show_images :: bool

text \<open>
  The calls of a request into the annotators, their unloading and the generation
  pipeline, in the order in which they happen.
\<close>

datatype call =
    Call_canny | Call_hed | Call_mlsd | Call_midas | Call_midas_normal | Call_leres
  | Call_openpose | Call_fake_scribble | Call_uniformer
  | Call_unload_hed | Call_unload_mlsd | Call_unload_midas | Call_unload_leres
  | Call_unload_openpose | Call_unload_uniformer
  | Call_process_images

definition annotator_calls :: "call list" where
  "annotator_calls =
     [Call_canny, Call_hed, Call_mlsd, Call_midas, Call_midas_normal, Call_leres,
      Call_openpose, Call_fake_scribble, Call_uniformer]"


section \<open>Encoding results\<close>

definition encode_pil_to_base64 :: "('img, 'g) env \<Rightarrow> 'img \<Rightarrow> error + string" where
  "encode_pil_to_base64 env im =
     (if lower (samples_format env) = ''png'' then Inr (save env ''PNG'' im)
      else if lower (samples_format env) \<in> set [''jpg'', ''jpeg'', ''webp'']
      then (if lower (samples_format env) \<in> set [''jpg'', ''jpeg'']
            then Inr (save env ''JPEG'' im)
            else Inr (save env ''WEBP'' im))
      else Inl (HTTPException 500 ''Invalid image format''))"

definition encode_np_to_base64 :: "('img, 'g) env \<Rightarrow> ndarray \<Rightarrow> error + string" where
  "encode_np_to_base64 env a = encode_pil_to_base64 env (Image_fromarray env a)"

definition encode_to_base64 :: "('img, 'g) env \<Rightarrow> 'img pyval \<Rightarrow> error + string" where
  "encode_to_base64 env v =
     (case v of
        Str s \<Rightarrow> Inr s
      | Pil im \<Rightarrow> encode_pil_to_base64 env im
      | Nd a \<Rightarrow> encode_np_to_base64 env a
      | Other \<Rightarrow> Inr '''')"

section \<open>The detect endpoint\<close>

record response =
  images :: "string list"
  info :: string

definition available_modules :: "string list" where
  "available_modules =
     [''canny'', ''depth'', ''depth_leres'', ''fake_scribble'', ''hed'', ''mlsd'',
      ''normal_map'', ''openpose'', ''segmentation'']"

text \<open>
  The chain of \<^verbatim>\<open>if\<close>/\<^verbatim>\<open>elif\<close> in the loop of \<^verbatim>\<open>detect\<close>: the annotator called and what it
  returns, \<open>None\<close> when no branch is taken.
\<close>

definition annotate ::
  "('img, 'g) env \<Rightarrow> string \<Rightarrow> ndarray \<Rightarrow> int \<Rightarrow> real \<Rightarrow> real \<Rightarrow> (call \<times> 'img pyval) option" where
  "annotate env controlnet_module img controlnet_processor_res controlnet_threshold_a
       controlnet_threshold_b =
     (if controlnet_module = ''canny''
      then Some (Call_canny, canny env img controlnet_processor_res controlnet_threshold_a
                   controlnet_threshold_b)
      else if controlnet_module = ''hed''
      then Some (Call_hed, hed env img controlnet_processor_res)
      else if controlnet_module = ''mlsd''
      then Some (Call_mlsd, mlsd env img controlnet_processor_res controlnet_threshold_a
                   controlnet_threshold_b)
      else if controlnet_module = ''depth''
      then Some (Call_midas, midas env img controlnet_processor_res (np_pi * 2))
      else if controlnet_module = ''normal_map''
      then Some (Call_midas_normal, midas_normal env img controlnet_processor_res (np_pi * 2)
                   controlnet_threshold_a)
      else if controlnet_module = ''depth_leres''
      then Some (Call_leres, leres env img controlnet_processor_res (np_pi * 2)
                   controlnet_threshold_a controlnet_threshold_b)
      else if controlnet_module = ''openpose''
      then Some (Call_openpose, openpose env img controlnet_processor_res False)
      else if controlnet_module = ''fake_scribble''
      then Some (Call_fake_scribble, fake_scribble env img controlnet_processor_res)
      else if controlnet_module = ''segmentation''
      then Some (Call_uniformer, uniformer env img controlnet_processor_res)
      else None)"

text \<open>
  The loop over \<^verbatim>\<open>controlnet_input_images\<close>, with \<open>results\<close> the list built so far. The
  image is decoded with no \<^verbatim>\<open>try\<close> around it.
\<close>

fun detect_loop ::
  "('img, 'g) env \<Rightarrow> string \<Rightarrow> int \<Rightarrow> real \<Rightarrow> real \<Rightarrow> 'img pyval list \<Rightarrow> string list
     \<Rightarrow> call list \<times> (error + 'img pyval list)" where
  "detect_loop env m res a b results [] = ([], Inr results)"
| "detect_loop env m res a b results (input_image # rest) =
     (case open_b64 (codec env) input_image of
        None \<Rightarrow> ([], Inl DecodeError)
      | Some im \<Rightarrow>
          (case annotate env m (astype_uint8 (np_array env im)) res a b of
             None \<Rightarrow> detect_loop env m res a b results rest
           | Some (c, r) \<Rightarrow>
               (case detect_loop env m res a b (results @ [r]) rest of
                  (t, out) \<Rightarrow> (c # t, out))))"

definition unload :: "string \<Rightarrow> call list" where
  "unload controlnet_module =
     (if controlnet_module = ''hed'' then [Call_unload_hed]
      else if controlnet_module = ''mlsd'' then [Call_unload_mlsd]
      else if controlnet_module = ''depth'' \<or> controlnet_module = ''normal_map''
      then [Call_unload_midas]
      else if controlnet_module = ''depth_leres'' then [Call_unload_leres]
      else if controlnet_module = ''openpose'' then [Call_unload_openpose]
      else if controlnet_module = ''segmentation'' then [Call_unload_uniformer]
      else [])"

text \<open>
  The endpoint returns the calls it made and either the response or the exception that
  ended it. Writing to the console is left out.
\<close>

definition detect ::
  "('img, 'g) env \<Rightarrow> string \<Rightarrow> string list \<Rightarrow> int \<Rightarrow> real \<Rightarrow> real
     \<Rightarrow> call list \<times> (error + response)" where
  "detect env controlnet_module controlnet_input_images controlnet_processor_res
       controlnet_threshold_a controlnet_threshold_b =
     (if controlnet_module \<notin> set available_modules
      then ([], Inr \<lparr>images = [], info = ''Module not available''\<rparr>)
      else if length controlnet_input_images = 0
      then ([], Inr \<lparr>images = [], info = ''No image selected''\<rparr>)
      else
        (case detect_loop env controlnet_module controlnet_processor_res controlnet_threshold_a
                controlnet_threshold_b [] controlnet_input_images of
           (t, Inl e) \<Rightarrow> (t, Inl e)
         | (t, Inr results) \<Rightarrow>
             (t @ unload controlnet_module,
              bind_err (map_err (encode_to_base64 env) results)
                (\<lambda>results64. Inr \<lparr>images = results64, info = ''Success''\<rparr>))))"

section \<open>The img2img endpoint\<close>

text \<open>
  The control image and the control mask of \<^verbatim>\<open>img2img\<close>: the first element of each list,
  decoded with no \<^verbatim>\<open>try\<close> around it, and zeros for an empty list of masks.
\<close>

definition cn_image_np :: "('img, 'g) env \<Rightarrow> string list \<Rightarrow> error + ndarray" where
  "cn_image_np env controlnet_input_image =
     bind_err (getitem controlnet_input_image 0) (\<lambda>s.
       case open_b64 (codec env) s of
         None \<Rightarrow> Inl DecodeError
       | Some cn_image \<Rightarrow> Inr (astype_uint8 (np_array env cn_image)))"

definition cn_mask_np :: "('img, 'g) env \<Rightarrow> string list \<Rightarrow> error + ndarray" where
  "cn_mask_np env controlnet_mask =
     (if controlnet_mask = [] then Inr (zeros_uint8 [512, 512, 3])
      else bind_err (getitem controlnet_mask 0) (\<lambda>s.
        case open_b64 (codec env) s of
          None \<Rightarrow> Inl DecodeError
        | Some cn_mask \<Rightarrow> Inr (astype_uint8 (np_array env cn_mask))))"

text \<open>
  Everything of \<^verbatim>\<open>img2img\<close> before the call of the pipeline: the object \<^verbatim>\<open>p\<close>, or the
  exception raised on the way. \<open>cn\<close> holds the ten \<^verbatim>\<open>controlnet_*\<close> parameters that are
  passed on unchanged, in the order of the parameter list. The host's runner of scripts
  that is bound to \<^verbatim>\<open>p.scripts\<close> is the same for every request and is left out.
\<close>

definition img2img_p ::
  "('img, 'g) env \<Rightarrow> string list \<Rightarrow> string option \<Rightarrow> int \<Rightarrow> string list \<Rightarrow> string list
     \<Rightarrow> string \<times> string \<times> real \<times> string \<times> bool \<times> int \<times> real \<times> real \<times> real \<times> bool
     \<Rightarrow> 'g \<Rightarrow> error + ('img, 'g) processing" where
  "img2img_p env init_images mask' mask_blur controlnet_input_image controlnet_mask cn params =
     (case cn of
        (controlnet_module, controlnet_model, controlnet_weight, controlnet_resize_mode,
         controlnet_lowvram, controlnet_processor_res, controlnet_threshold_a,
         controlnet_threshold_b, controlnet_guidance, controlnet_guessmode) \<Rightarrow>
     bind_err (case mask' of
                 None \<Rightarrow> Inr None
               | Some s \<Rightarrow>
                   if s \<noteq> ''''
                   then bind_err (decode_base64_to_image (codec env) s) (\<lambda>im. Inr (Some (Inr im)))
                   else Inr (Some (Inl s))) (\<lambda>mask'.
     bind_err (map_err (decode_base64_to_image (codec env)) init_images) (\<lambda>init_images.
     bind_err (cn_image_np env controlnet_input_image) (\<lambda>image_np.
     bind_err (cn_mask_np env controlnet_mask) (\<lambda>mask_np.
     Inr \<lparr>p_init_images = init_images,
          p_mask = mask',
          p_mask_blur = mask_blur,
          p_params = params,
          control_net_enabled = True,
          control_net_module = controlnet_module,
          control_net_model = controlnet_model,
          control_net_weight = controlnet_weight,
          control_net_image = (image_np, mask_np),
          control_net_scribble_mode = False,
          control_net_resize_mode = controlnet_resize_mode,
          control_net_rgbbgr_mode = False,
          control_net_lowvram = controlnet_lowvram,
          control_net_pres = controlnet_processor_res,
          control_net_pthr_a = controlnet_threshold_a,
          control_net_pthr_b = controlnet_threshold_b,
          control_net_guidance_strength = controlnet_guidance,
          control_net_guess_mode = controlnet_guessmode,
          control_net_api_access = True,
          p_script_args = [AInt 0],
          extra_mask_blur = mask_blur\<rparr>)))))"

definition img2img ::
  "('img, 'g) env \<Rightarrow> string list \<Rightarrow> string option \<Rightarrow> int \<Rightarrow> string list \<Rightarrow> string list
     \<Rightarrow> string \<times> string \<times> real \<times> string \<times> bool \<times> int \<times> real \<times> real \<times> real \<times> bool
     \<Rightarrow> 'g \<Rightarrow> call list \<times> (error + response)" where
  "img2img env init_images mask' mask_blur controlnet_input_image controlnet_mask cn params =
     (case img2img_p env init_images mask' mask_blur controlnet_input_image controlnet_mask
             cn params of
        Inl e \<Rightarrow> ([], Inl e)
      | Inr p \<Rightarrow>
          (case process_images env p of
             (processed_images, js) \<Rightarrow>
               ([Call_process_images],
                bind_err (map_err (encode_to_base64 env)
                            (if do_not_show_images env then [] else processed_images))
                  (\<lambda>b64images. Inr \<lparr>images = b64images, info = js\<rparr>))))"

section \<open>The ControlNet unit of a request\<close>

record ControlNetUnitRequest =
  input_image :: string
  mask :: string
  module :: string
  model :: string
  weight :: real
  resize_mode :: string
  lowvram :: bool
  processor_res :: int
  threshold_a :: real
  threshold_b :: real
  guidance :: real
  guessmode :: bool


section \<open>The script runner\<close>















section \<open>The deprecated flat fields of a txt2img request\<close>

text \<open>The value of a field of a request: \<open>FNone\<close> is Python's \<^verbatim>\<open>None\<close>.\<close>

datatype fieldval =
    FNone
  | FStr string
  | FStrs "string list"
  | FFloat real
  | FInt int
  | FBool bool
  | FUnits "ControlNetUnitRequest list"

text \<open>The defaults of \<^verbatim>\<open>cn_fields\<close>, as written there.\<close>

definition cn_fields :: "(string \<times> fieldval) list" where
  "cn_fields =
     [(''input_image'', FStr ''''),
      (''mask'', FStr ''''),
      (''module'', FStr ''none''),
      (''model'', FStr ''None''),
      (''weight'', FFloat 1.0),
      (''resize_mode'', FStr ''Scale to Fit (Inner Fit)''),
      (''lowvram'', FBool False),
      (''processor_res'', FInt 64),
      (''threshold_a'', FInt 64),
      (''threshold_b'', FInt 64),
      (''guidance'', FFloat 1.0),
      (''guessmode'', FBool True)]"

definition get_deprecated_field_default :: "string \<Rightarrow> error + fieldval" where
  "get_deprecated_field_default field_name =
     (if field_name \<in> set [''input_image'', ''mask''] then Inr (FStrs [])
      else (case map_of cn_fields field_name of
              None \<Rightarrow> Inl KeyError
            | Some d \<Rightarrow> Inr d))"

text \<open>The truth value of a value in a condition.\<close>

fun truthy :: "fieldval \<Rightarrow> bool" where
  "truthy FNone = False"
| "truthy (FStr s) = (s \<noteq> [])"
| "truthy (FStrs l) = (l \<noteq> [])"
| "truthy (FFloat x) = (x \<noteq> 0)"
| "truthy (FInt i) = (i \<noteq> 0)"
| "truthy (FBool b) = b"
| "truthy (FUnits us) = (us \<noteq> [])"

text \<open>
  A request of the class \<^verbatim>\<open>StableDiffusionTxt2ImgControlNetProcessingAPI\<close>. \<open>base\<close> holds
  the fields inherited from the host's class, none of which has a name that starts with
  \<^verbatim>\<open>controlnet_\<close>. The first record is the request without the deprecated attributes,
  as \<^verbatim>\<open>copy(exclude=...)\<close> leaves it.
\<close>

record 'b nested_txt2imgreq =
  base :: 'b
  controlnet_units :: "ControlNetUnitRequest list"

record 'b StableDiffusionTxt2ImgControlNetProcessingAPI = "'b nested_txt2imgreq" +
  controlnet_input_image :: "string list option"
  controlnet_mask :: "string list option"
  controlnet_module :: "string option"
  controlnet_model :: "string option"
  controlnet_weight :: "real option"
  controlnet_resize_mode :: "string option"
  controlnet_lowvram :: "bool option"
  controlnet_processor_res :: "int option"
  controlnet_threshold_a :: "real option"
  controlnet_threshold_b :: "real option"
  controlnet_guidance :: "real option"
  controlnet_guessmode :: "bool option"

definition of_optional :: "('a \<Rightarrow> fieldval) \<Rightarrow> 'a option \<Rightarrow> fieldval" where
  "of_optional f v = (case v of None \<Rightarrow> FNone | Some x \<Rightarrow> f x)"

text \<open>The entries of \<^verbatim>\<open>vars(txt2imgreq)\<close> for the fields that the class declares.\<close>

definition vars_declared ::
  "'b StableDiffusionTxt2ImgControlNetProcessingAPI \<Rightarrow> (string \<times> fieldval) list" where
  "vars_declared txt2imgreq =
     [(''controlnet_units'', FUnits (controlnet_units txt2imgreq)),
      (''controlnet_input_image'', of_optional FStrs (controlnet_input_image txt2imgreq)),
      (''controlnet_mask'', of_optional FStrs (controlnet_mask txt2imgreq)),
      (''controlnet_module'', of_optional FStr (controlnet_module txt2imgreq)),
      (''controlnet_model'', of_optional FStr (controlnet_model txt2imgreq)),
      (''controlnet_weight'', of_optional FFloat (controlnet_weight txt2imgreq)),
      (''controlnet_resize_mode'', of_optional FStr (controlnet_resize_mode txt2imgreq)),
      (''controlnet_lowvram'', of_optional FBool (controlnet_lowvram txt2imgreq)),
      (''controlnet_processor_res'', of_optional FInt (controlnet_processor_res txt2imgreq)),
      (''controlnet_threshold_a'', of_optional FFloat (controlnet_threshold_a txt2imgreq)),
      (''controlnet_threshold_b'', of_optional FFloat (controlnet_threshold_b txt2imgreq)),
      (''controlnet_guidance'', of_optional FFloat (controlnet_guidance txt2imgreq)),
      (''controlnet_guessmode'', of_optional FBool (controlnet_guessmode txt2imgreq))]"

text \<open>
  The first dictionary comprehension of \<^verbatim>\<open>nest_deprecated_cn_fields\<close>: the entries whose
  key starts with \<^verbatim>\<open>controlnet_\<close> and is not \<^verbatim>\<open>controlnet_units\<close>.
\<close>

definition deprecated_cn_fields ::
  "'b StableDiffusionTxt2ImgControlNetProcessingAPI \<Rightarrow> (string \<times> fieldval) list" where
  "deprecated_cn_fields txt2imgreq =
     filter (\<lambda>(k, v). startswith k ''controlnet_'' \<and> k \<noteq> ''controlnet_units'')
       (vars_declared txt2imgreq)"

text \<open>The loop that replaces each \<^verbatim>\<open>None\<close> by the default of its field.\<close>

fun fill_defaults :: "(string \<times> fieldval) list \<Rightarrow> error + (string \<times> fieldval) list" where
  "fill_defaults [] = Inr []"
| "fill_defaults ((k, v) # kvs) =
     bind_err (if v = FNone then get_deprecated_field_default k else Inr v) (\<lambda>v'.
     bind_err (fill_defaults kvs) (\<lambda>r. Inr ((k, v') # r)))"

text \<open>\<^verbatim>\<open>d[k]\<close>, \<^verbatim>\<open>v[0]\<close> and \<^verbatim>\<open>d[k] = v\<close> on a dictionary that already has the key.\<close>

definition dict_get :: "(string \<times> fieldval) list \<Rightarrow> string \<Rightarrow> error + fieldval" where
  "dict_get d k = (case map_of d k of None \<Rightarrow> Inl KeyError | Some v \<Rightarrow> Inr v)"

definition subscript0 :: "fieldval \<Rightarrow> error + fieldval" where
  "subscript0 v =
     (case v of
        FStrs l \<Rightarrow> bind_err (getitem l 0) (\<lambda>s. Inr (FStr s))
      | FStr s \<Rightarrow> bind_err (getitem s 0) (\<lambda>c. Inr (FStr [c]))
      | _ \<Rightarrow> Inl ValidationError)"

definition dict_set ::
  "(string \<times> fieldval) list \<Rightarrow> string \<Rightarrow> fieldval \<Rightarrow> (string \<times> fieldval) list" where
  "dict_set d k v = map (\<lambda>(k', v'). if k' = k then (k', v) else (k', v')) d"

text \<open>
  One round of the loop over \<^verbatim>\<open>('input_image', 'mask')\<close>:
  \<^verbatim>\<open>d[k] = d[k][0] if get_deprecated_field_default(k) else ""\<close>. The condition is
  evaluated first, and the subscript only when it holds.
\<close>

definition first_or_empty ::
  "(string \<times> fieldval) list \<Rightarrow> string \<Rightarrow> error + (string \<times> fieldval) list" where
  "first_or_empty d k =
     bind_err (get_deprecated_field_default k) (\<lambda>c.
     bind_err (if truthy c then bind_err (dict_get d k) subscript0 else Inr (FStr ''''))
       (\<lambda>v. Inr (dict_set d k v)))"

text \<open>
  \<^verbatim>\<open>ControlNetUnitRequest(**d)\<close>: a key that is absent takes the default of
  \<^verbatim>\<open>cn_fields\<close>, an integer is accepted for a float, and a value of another type than the
  field's is a validation error.
\<close>

definition field_or_default :: "(string \<times> fieldval) list \<Rightarrow> string \<Rightarrow> error + fieldval" where
  "field_or_default d k =
     (case map_of d k of Some v \<Rightarrow> Inr v | None \<Rightarrow> dict_get cn_fields k)"

definition as_str :: "fieldval \<Rightarrow> error + string" where
  "as_str v = (case v of FStr s \<Rightarrow> Inr s | _ \<Rightarrow> Inl ValidationError)"

definition as_float :: "fieldval \<Rightarrow> error + real" where
  "as_float v =
     (case v of FFloat x \<Rightarrow> Inr x | FInt i \<Rightarrow> Inr (of_int i) | _ \<Rightarrow> Inl ValidationError)"

definition as_int :: "fieldval \<Rightarrow> error + int" where
  "as_int v = (case v of FInt i \<Rightarrow> Inr i | _ \<Rightarrow> Inl ValidationError)"

definition as_bool :: "fieldval \<Rightarrow> error + bool" where
  "as_bool v = (case v of FBool b \<Rightarrow> Inr b | _ \<Rightarrow> Inl ValidationError)"

definition ControlNetUnitRequest_init ::
  "(string \<times> fieldval) list \<Rightarrow> error + ControlNetUnitRequest" where
  "ControlNetUnitRequest_init d =
     bind_err (bind_err (field_or_default d ''input_image'') as_str) (\<lambda>v1.
     bind_err (bind_err (field_or_default d ''mask'') as_str) (\<lambda>v2.
     bind_err (bind_err (field_or_default d ''module'') as_str) (\<lambda>v3.
     bind_err (bind_err (field_or_default d ''model'') as_str) (\<lambda>v4.
     bind_err (bind_err (field_or_default d ''weight'') as_float) (\<lambda>v5.
     bind_err (bind_err (field_or_default d ''resize_mode'') as_str) (\<lambda>v6.
     bind_err (bind_err (field_or_default d ''lowvram'') as_bool) (\<lambda>v7.
     bind_err (bind_err (field_or_default d ''processor_res'') as_int) (\<lambda>v8.
     bind_err (bind_err (field_or_default d ''threshold_a'') as_float) (\<lambda>v9.
     bind_err (bind_err (field_or_default d ''threshold_b'') as_float) (\<lambda>v10.
     bind_err (bind_err (field_or_default d ''guidance'') as_float) (\<lambda>v11.
     bind_err (bind_err (field_or_default d ''guessmode'') as_bool) (\<lambda>v12.
     Inr \<lparr>input_image = v1, mask = v2, module = v3, model = v4, weight = v5,
          resize_mode = v6, lowvram = v7, processor_res = v8, threshold_a = v9,
          threshold_b = v10, guidance = v11, guessmode = v12\<rparr>))))))))))))"

definition nest_deprecated_cn_fields ::
  "'b StableDiffusionTxt2ImgControlNetProcessingAPI \<Rightarrow> error + 'b nested_txt2imgreq" where
  "nest_deprecated_cn_fields txt2imgreq =
     (let deprecated = deprecated_cn_fields txt2imgreq;
          txt2imgreq' = nested_txt2imgreq.truncate txt2imgreq
      in if list_all (\<lambda>(k, v). v = FNone) deprecated then Inr txt2imgreq'
         else
           bind_err (fill_defaults
                       (map (\<lambda>(k, v). (drop (length ''controlnet_'') k, v)) deprecated)) (\<lambda>d.
           bind_err (first_or_empty d ''input_image'') (\<lambda>d.
           bind_err (first_or_empty d ''mask'') (\<lambda>d.
           bind_err (ControlNetUnitRequest_init d) (\<lambda>u.
           Inr (txt2imgreq'\<lparr>controlnet_units := u # controlnet_units txt2imgreq'\<rparr>))))))"

section \<open>Routes\<close>

text \<open>
  What the module does to the host when it is loaded and when the application has started.
  The host is the class bound to \<^verbatim>\<open>api.Api\<close> and, when \<^verbatim>\<open>modules.script_callbacks\<close> can be
  imported and has \<^verbatim>\<open>on_app_started\<close>, the list of the callbacks registered there.
\<close>

datatype http_method = GET | POST

datatype handler = Api_txt2img | Img2img | Model_list | Detect | Host_handler string

type_synonym route = "http_method \<times> string \<times> handler"

datatype api_class = OriginalApi | Api

datatype callback = Controlnet_api | Host_callback "route list"

record host =
  api_Api :: api_class
  app_started_callbacks :: "callback list option"

text \<open>
  The statements of the module at top level: \<^verbatim>\<open>api.Api = Api\<close>, then the registration of
  \<^verbatim>\<open>controlnet_api\<close> inside \<^verbatim>\<open>try\<close> ... \<^verbatim>\<open>except: pass\<close>.
\<close>

definition load_module :: "host \<Rightarrow> host" where
  "load_module h =
     (let h1 = h\<lparr>api_Api := Api\<rparr>
      in case app_started_callbacks h1 of
           None \<Rightarrow> h1
         | Some cbs \<Rightarrow> h1\<lparr>app_started_callbacks := Some (cbs @ [Controlnet_api])\<rparr>)"

text \<open>
  The constructor of the class bound to \<^verbatim>\<open>api.Api\<close>, on the routes that the constructor
  of the host's class sets up.
\<close>

definition Api_init :: "api_class \<Rightarrow> route list \<Rightarrow> route list" where
  "Api_init cls original_routes =
     (case cls of
        OriginalApi \<Rightarrow> original_routes
      | Api \<Rightarrow> original_routes @ [(POST, ''/controlnet/txt2img'', Api_txt2img)])"

definition controlnet_api :: "route list \<Rightarrow> route list" where
  "controlnet_api app =
     app @ [(POST, ''/controlnet/img2img'', Img2img),
            (GET, ''/controlnet/model_list'', Model_list),
            (POST, ''/controlnet/detect'', Detect)]"

text \<open>
  The host at start: it builds its API object from the class bound to \<^verbatim>\<open>api.Api\<close> and
  then runs the callbacks, each on the application. A callback of the host adds routes
  of its own.
\<close>

definition run_callback :: "route list \<Rightarrow> callback \<Rightarrow> route list" where
  "run_callback app cb =
     (case cb of Controlnet_api \<Rightarrow> controlnet_api app | Host_callback rs \<Rightarrow> app @ rs)"

definition app_started :: "host \<Rightarrow> route list \<Rightarrow> route list" where
  "app_started h original_routes =
     foldl run_callback (Api_init (api_Api h) original_routes)
       (case app_started_callbacks h of None \<Rightarrow> [] | Some cbs \<Rightarrow> cbs)"

definition controlnet_routes :: "route list \<Rightarrow> route list" where
  "controlnet_routes rs = filter (\<lambda>(m, path, f). startswith path ''/controlnet/'') rs"

section \<open>A small environment\<close>

text \<open>
  A concrete environment to run the definitions on. Images are numbers; the one text that
  decodes is \<^verbatim>\<open>R0lGODlh\<close>, the base64 of \<^verbatim>\<open>GIF89a\<close>, and every annotator returns the array
  it is given.
\<close>

definition demo_codec :: "nat codec" where
  "demo_codec =
     \<lparr>b64decode = (\<lambda>s. if s = ''R0lGODlh'' then Some ''GIF89a'' else None),
      Image_open = (\<lambda>bs. if bs = ''GIF89a'' then Some 1 else None)\<rparr>"

definition demo_env :: "(nat, unit) env" where
  "demo_env =
     \<lparr>codec = demo_codec,
      np_array = (\<lambda>im. \<lparr>dtype = Uint8, shape = [1, 1], data = [int im]\<rparr>),
      Image_fromarray = (\<lambda>a. length (data a)),
      samples_format = ''png'',
      save = (\<lambda>fmt im. fmt),
      canny = (\<lambda>img res a b. Nd img),
      hed = (\<lambda>img res. Nd img),
      mlsd = (\<lambda>img res a b. Nd img),
      midas = (\<lambda>img res a. Nd img),
      midas_normal = (\<lambda>img res a b. Nd img),
      leres = (\<lambda>img res a b c. Nd img),
      openpose = (\<lambda>img res h. Nd img),
      fake_scribble = (\<lambda>img res. Nd img),
      uniformer = (\<lambda>img res. Nd img),
      process_images = (\<lambda>p. ([], '''')),
      do_not_show_images = False\<rparr>"




definition demo_request :: "unit StableDiffusionTxt2ImgControlNetProcessingAPI" where
  "demo_request =
     \<lparr>base = (), controlnet_units = [],
      controlnet_input_image = None, controlnet_mask = None, controlnet_module = None,
      controlnet_model = None, controlnet_weight = None, controlnet_resize_mode = None,
      controlnet_lowvram = None, controlnet_processor_res = None,
      controlnet_threshold_a = None, controlnet_threshold_b = None,
      controlnet_guidance = None, controlnet_guessmode = None\<rparr>"

section \<open>Properties of the decoder\<close>

lemma strip_data_uri_IndexError:
  "strip_data_uri encoding = Inl e \<Longrightarrow> e = IndexError"
  by (auto simp: strip_data_uri_def bind_err_def getitem_def split: if_splits sum.splits)

lemma strip_data_uri_plain:
  "\<not> startswith encoding ''data:image/'' \<Longrightarrow> strip_data_uri encoding = Inr encoding"
  by (simp add: strip_data_uri_def)

lemma strip_data_uri_header:
  "startswith encoding ''data:image/'' \<Longrightarrow>
      strip_data_uri encoding =
        (if length (split encoding CHR '';'') \<le> 1 then Inl IndexError
         else if length (split (split encoding CHR '';'' ! 1) CHR '','') \<le> 1 then Inl IndexError
         else Inr (split (split encoding CHR '';'' ! 1) CHR '','' ! 1))"
  by (simp add: strip_data_uri_def bind_err_def getitem_def)

lemma decode_after_strip:
  "strip_data_uri encoding = Inr r \<Longrightarrow>
   decode_base64_to_image cd encoding =
     (case b64decode cd r of
        None \<Rightarrow> Inl (HTTPException 500 ''Invalid encoded image'')
      | Some bs \<Rightarrow> (case Image_open cd bs of
                     None \<Rightarrow> Inl (HTTPException 500 ''Invalid encoded image'')
                   | Some im \<Rightarrow> Inr im))"
  by (simp add: decode_base64_to_image_def bind_err_def open_b64_def split: option.splits)


text \<open>
  Claim C10, as the code has it. A text that does not start with \<^verbatim>\<open>data:image/\<close> is decoded
  as it is. One that does is replaced by the second comma-separated piece of its second
  semicolon-separated piece, and IndexError is raised, outside the \<^verbatim>\<open>try\<close> block, when
  there is no such piece. Once the text to decode is found, the function returns the
  image exactly when base64 decoding and the opening of the image both succeed, and it
  raises \<open>HTTPException 500 ''Invalid encoded image''\<close> exactly when one of them fails.
\<close>

theorem decode_base64_to_image_cases:
  "(\<not> startswith encoding ''data:image/'' \<longrightarrow> strip_data_uri encoding = Inr encoding) \<and>
   (startswith encoding ''data:image/'' \<longrightarrow>
      strip_data_uri encoding =
        (if length (split encoding CHR '';'') \<le> 1 then Inl IndexError
         else if length (split (split encoding CHR '';'' ! 1) CHR '','') \<le> 1 then Inl IndexError
         else Inr (split (split encoding CHR '';'' ! 1) CHR '','' ! 1))) \<and>
   (\<forall>e. strip_data_uri encoding = Inl e \<longrightarrow>
      e = IndexError \<and> decode_base64_to_image cd encoding = Inl IndexError) \<and>
   (\<forall>r. strip_data_uri encoding = Inr r \<longrightarrow>
      (\<forall>im. decode_base64_to_image cd encoding = Inr im \<longleftrightarrow>
         (\<exists>bs. b64decode cd r = Some bs \<and> Image_open cd bs = Some im)) \<and>
      (decode_base64_to_image cd encoding = Inl (HTTPException 500 ''Invalid encoded image'') \<longleftrightarrow>
         (b64decode cd r = None \<or> (\<exists>bs. b64decode cd r = Some bs \<and> Image_open cd bs = None))) \<and>
      (\<forall>e. decode_base64_to_image cd encoding = Inl e \<longrightarrow>
         e = HTTPException 500 ''Invalid encoded image''))"
proof -
  have 1: "\<not> startswith encoding ''data:image/'' \<longrightarrow> strip_data_uri encoding = Inr encoding"
    using strip_data_uri_plain by blast
  have 2: "startswith encoding ''data:image/'' \<longrightarrow>
      strip_data_uri encoding =
        (if length (split encoding CHR '';'') \<le> 1 then Inl IndexError
         else if length (split (split encoding CHR '';'' ! 1) CHR '','') \<le> 1 then Inl IndexError
         else Inr (split (split encoding CHR '';'' ! 1) CHR '','' ! 1))"
    using strip_data_uri_header by blast
  have 3: "\<forall>e. strip_data_uri encoding = Inl e \<longrightarrow>
      e = IndexError \<and> decode_base64_to_image cd encoding = Inl IndexError"
  proof (intro allI impI)
    fix e assume e: "strip_data_uri encoding = Inl e"
    then have "e = IndexError" by (rule strip_data_uri_IndexError)
    with e show "e = IndexError \<and> decode_base64_to_image cd encoding = Inl IndexError"
      by (simp add: decode_base64_to_image_def bind_err_def)
  qed
  have 4: "\<forall>r. strip_data_uri encoding = Inr r \<longrightarrow>
      (\<forall>im. decode_base64_to_image cd encoding = Inr im \<longleftrightarrow>
         (\<exists>bs. b64decode cd r = Some bs \<and> Image_open cd bs = Some im)) \<and>
      (decode_base64_to_image cd encoding = Inl (HTTPException 500 ''Invalid encoded image'') \<longleftrightarrow>
         (b64decode cd r = None \<or> (\<exists>bs. b64decode cd r = Some bs \<and> Image_open cd bs = None))) \<and>
      (\<forall>e. decode_base64_to_image cd encoding = Inl e \<longrightarrow>
         e = HTTPException 500 ''Invalid encoded image'')"
  proof (intro allI impI)
    fix r assume r: "strip_data_uri encoding = Inr r"
    show "(\<forall>im. decode_base64_to_image cd encoding = Inr im \<longleftrightarrow>
         (\<exists>bs. b64decode cd r = Some bs \<and> Image_open cd bs = Some im)) \<and>
      (decode_base64_to_image cd encoding = Inl (HTTPException 500 ''Invalid encoded image'') \<longleftrightarrow>
         (b64decode cd r = None \<or> (\<exists>bs. b64decode cd r = Some bs \<and> Image_open cd bs = None))) \<and>
      (\<forall>e. decode_base64_to_image cd encoding = Inl e \<longrightarrow>
         e = HTTPException 500 ''Invalid encoded image'')"
      unfolding decode_after_strip [OF r]
      by (cases "b64decode cd r"; cases "Image_open cd (the (b64decode cd r))") simp_all
  qed
  from 1 2 3 4 show ?thesis by (intro conjI)
qed


text \<open>The theorem at a data URI that the small environment decodes.\<close>

theorem decode_base64_to_image_cases_witness:
  "startswith ''data:image/gif;base64,R0lGODlh'' ''data:image/'' \<and>
   strip_data_uri ''data:image/gif;base64,R0lGODlh'' = Inr ''R0lGODlh'' \<and>
   decode_base64_to_image demo_codec ''data:image/gif;base64,R0lGODlh'' = Inr 1"
proof -
  have s: "startswith ''data:image/gif;base64,R0lGODlh'' ''data:image/''"
    by (simp add: startswith_def)
  note a = decode_base64_to_image_cases [of "''data:image/gif;base64,R0lGODlh''" demo_codec]
  from a [THEN conjunct2, THEN conjunct1, THEN mp, OF s]
  have r: "strip_data_uri ''data:image/gif;base64,R0lGODlh'' = Inr ''R0lGODlh''"
    by simp
  from a [THEN conjunct2, THEN conjunct2, THEN conjunct2, THEN spec, THEN mp, OF r,
          THEN conjunct1, THEN spec, of 1]
  have d: "decode_base64_to_image demo_codec ''data:image/gif;base64,R0lGODlh'' = Inr 1"
    by (simp add: demo_codec_def)
  from s r d show ?thesis by (intro conjI)
qed

text \<open>
  Claim C10 as stated fails on a data URI without a semicolon: the header is not stripped,
  no image is returned and the exception is not an \<open>HTTPException\<close>.
\<close>

theorem decode_base64_to_image_counterexample:
  "decode_base64_to_image demo_codec ''data:image/png'' = Inl IndexError"
  by (simp add: decode_base64_to_image_def strip_data_uri_def startswith_def getitem_def bind_err_def)


section \<open>Properties of the script arguments of a unit\<close>











section \<open>Properties of the script runner\<close>

lemma bind_err_Inr [simp]: "bind_err (Inr x) f = f x"
  by (simp add: bind_err_def)

lemma bind_err_Inl [simp]: "bind_err (Inl e) f = Inl e"
  by (simp add: bind_err_def)









































section \<open>Properties of the nesting of the deprecated fields\<close>

lemma deprecated_cn_fields_eq:
  "deprecated_cn_fields txt2imgreq =
     [(''controlnet_input_image'', of_optional FStrs (controlnet_input_image txt2imgreq)),
      (''controlnet_mask'', of_optional FStrs (controlnet_mask txt2imgreq)),
      (''controlnet_module'', of_optional FStr (controlnet_module txt2imgreq)),
      (''controlnet_model'', of_optional FStr (controlnet_model txt2imgreq)),
      (''controlnet_weight'', of_optional FFloat (controlnet_weight txt2imgreq)),
      (''controlnet_resize_mode'', of_optional FStr (controlnet_resize_mode txt2imgreq)),
      (''controlnet_lowvram'', of_optional FBool (controlnet_lowvram txt2imgreq)),
      (''controlnet_processor_res'', of_optional FInt (controlnet_processor_res txt2imgreq)),
      (''controlnet_threshold_a'', of_optional FFloat (controlnet_threshold_a txt2imgreq)),
      (''controlnet_threshold_b'', of_optional FFloat (controlnet_threshold_b txt2imgreq)),
      (''controlnet_guidance'', of_optional FFloat (controlnet_guidance txt2imgreq)),
      (''controlnet_guessmode'', of_optional FBool (controlnet_guessmode txt2imgreq))]"
  by (simp add: deprecated_cn_fields_def vars_declared_def startswith_def)

text \<open>
  Claim C5. For every txt2img request in which every deprecated flat field is None,
  \<^verbatim>\<open>nest_deprecated_cn_fields\<close> returns the request without the deprecated fields: its
  \<^verbatim>\<open>controlnet_units\<close> and its inherited fields are those of the request it was given.
\<close>

theorem nest_deprecated_cn_fields_all_none:
  assumes "controlnet_input_image txt2imgreq = None" and "controlnet_mask txt2imgreq = None"
    and "controlnet_module txt2imgreq = None" and "controlnet_model txt2imgreq = None"
    and "controlnet_weight txt2imgreq = None" and "controlnet_resize_mode txt2imgreq = None"
    and "controlnet_lowvram txt2imgreq = None" and "controlnet_processor_res txt2imgreq = None"
    and "controlnet_threshold_a txt2imgreq = None" and "controlnet_threshold_b txt2imgreq = None"
    and "controlnet_guidance txt2imgreq = None" and "controlnet_guessmode txt2imgreq = None"
  shows "nest_deprecated_cn_fields txt2imgreq =
           Inr \<lparr>base = base txt2imgreq, controlnet_units = controlnet_units txt2imgreq\<rparr>"
  unfolding nest_deprecated_cn_fields_def deprecated_cn_fields_eq
  by (simp add: assms of_optional_def nested_txt2imgreq.truncate_def)

text \<open>The theorem at a request with no unit and no deprecated field.\<close>

theorem nest_deprecated_cn_fields_all_none_witness:
  "nest_deprecated_cn_fields demo_request = Inr \<lparr>base = (), controlnet_units = []\<rparr>"
proof -
  have "nest_deprecated_cn_fields demo_request =
           Inr \<lparr>base = base demo_request, controlnet_units = controlnet_units demo_request\<rparr>"
    by (rule nest_deprecated_cn_fields_all_none) (simp_all add: demo_request_def)
  then show ?thesis by (simp add: demo_request_def)
qed



section \<open>Properties of the detect endpoint\<close>


lemma unload_no_annotator: "set (unload m) \<inter> set annotator_calls = {}"
  unfolding unload_def annotator_calls_def by auto






text \<open>The annotator of each of the nine modules.\<close>

lemma annotate_modules:
  "annotate env ''canny'' img res a b = Some (Call_canny, canny env img res a b)"
  "annotate env ''hed'' img res a b = Some (Call_hed, hed env img res)"
  "annotate env ''mlsd'' img res a b = Some (Call_mlsd, mlsd env img res a b)"
  "annotate env ''depth'' img res a b = Some (Call_midas, midas env img res (np_pi * 2))"
  "annotate env ''normal_map'' img res a b =
     Some (Call_midas_normal, midas_normal env img res (np_pi * 2) a)"
  "annotate env ''depth_leres'' img res a b = Some (Call_leres, leres env img res (np_pi * 2) a b)"
  "annotate env ''openpose'' img res a b = Some (Call_openpose, openpose env img res False)"
  "annotate env ''fake_scribble'' img res a b = Some (Call_fake_scribble, fake_scribble env img res)"
  "annotate env ''segmentation'' img res a b = Some (Call_uniformer, uniformer env img res)"
  by (simp_all add: annotate_def)






text \<open>
  Claim C8. A request to \<^verbatim>\<open>detect\<close> whose module is not one of the nine available modules
  is answered by no image and the info \<^verbatim>\<open>Module not available\<close>; a request with an
  available module and an empty list of input images is answered by no image and the info
  \<^verbatim>\<open>No image selected\<close>. In both cases the endpoint makes no call: no annotator is
  applied.
\<close>

theorem detect_refusals:
  "(m \<notin> set available_modules \<longrightarrow>
      detect env m imgs res a b =
        ([], Inr \<lparr>images = [], info = ''Module not available''\<rparr>)) \<and>
   (m \<in> set available_modules \<and> imgs = [] \<longrightarrow>
      detect env m imgs res a b =
        ([], Inr \<lparr>images = [], info = ''No image selected''\<rparr>))"
proof (intro conjI impI)
  assume "m \<notin> set available_modules"
  then show "detect env m imgs res a b =
      ([], Inr \<lparr>images = [], info = ''Module not available''\<rparr>)"
    by (simp add: detect_def)
next
  assume "m \<in> set available_modules \<and> imgs = []"
  then have "m \<in> set available_modules" and "length imgs = 0" by simp_all
  then show "detect env m imgs res a b =
      ([], Inr \<lparr>images = [], info = ''No image selected''\<rparr>)"
    by (simp add: detect_def)
qed

text \<open>The theorem at an unknown module and at an available module with no image.\<close>

theorem detect_refusals_witness:
  "''blur'' \<notin> set available_modules \<and>
   detect demo_env ''blur'' [''R0lGODlh''] 512 64 64 =
     ([], Inr \<lparr>images = [], info = ''Module not available''\<rparr>) \<and>
   ''hed'' \<in> set available_modules \<and>
   detect demo_env ''hed'' [] 512 64 64 =
     ([], Inr \<lparr>images = [], info = ''No image selected''\<rparr>)"
proof -
  have 1: "''blur'' \<notin> set available_modules" by (simp add: available_modules_def)
  have 2: "''hed'' \<in> set available_modules" by (simp add: available_modules_def)
  from detect_refusals [of "''blur''" demo_env "[''R0lGODlh'']" 512 64 64,
      THEN conjunct1, THEN mp, OF 1]
  have 3: "detect demo_env ''blur'' [''R0lGODlh''] 512 64 64 =
     ([], Inr \<lparr>images = [], info = ''Module not available''\<rparr>)" .
  from detect_refusals [of "''hed''" demo_env "[]" 512 64 64,
      THEN conjunct2, THEN mp, OF conjI [OF 2 refl]]
  have 4: "detect demo_env ''hed'' [] 512 64 64 =
     ([], Inr \<lparr>images = [], info = ''No image selected''\<rparr>)" .
  from 1 3 2 4 show ?thesis by (intro conjI)
qed

section \<open>Properties of the img2img endpoint\<close>

lemma zeros_uint8_fields:
  "dtype (zeros_uint8 s) = Uint8"
  "shape (zeros_uint8 s) = s"
  "data (zeros_uint8 s) = replicate (prod_list s) 0"
  by (simp_all add: zeros_uint8_def astype_uint8_def)

lemma getitem_first: "xs \<noteq> [] \<Longrightarrow> getitem xs 0 = Inr (hd xs)"
  by (cases xs) (simp_all add: getitem_def)

lemma cn_image_np_empty: "cn_image_np env [] = Inl IndexError"
  by (simp add: cn_image_np_def getitem_def)

lemma cn_image_np_first:
  "xs \<noteq> [] \<Longrightarrow>
   cn_image_np env xs =
     (case open_b64 (codec env) (hd xs) of
        None \<Rightarrow> Inl DecodeError
      | Some im \<Rightarrow> Inr (astype_uint8 (np_array env im)))"
  by (simp add: cn_image_np_def getitem_first)

lemma cn_mask_np_first:
  "xs \<noteq> [] \<Longrightarrow>
   cn_mask_np env xs =
     (case open_b64 (codec env) (hd xs) of
        None \<Rightarrow> Inl DecodeError
      | Some im \<Rightarrow> Inr (astype_uint8 (np_array env im)))"
  by (simp add: cn_mask_np_def getitem_first)

lemma cn_mask_np_empty: "cn_mask_np env [] = Inr (zeros_uint8 [512, 512, 3])"
  by (simp add: cn_mask_np_def)

lemma bind_err_eq_Inr: "bind_err m f = Inr y \<longleftrightarrow> (\<exists>x. m = Inr x \<and> f x = Inr y)"
  by (cases m) simp_all

lemma img2img_p_control_net_image:
  assumes "img2img_p env init_images mask' mask_blur imgs masks cn params = Inr p"
  shows "\<exists>image_np mask_np. cn_image_np env imgs = Inr image_np \<and>
           cn_mask_np env masks = Inr mask_np \<and> control_net_image p = (image_np, mask_np)"
proof -
  obtain c1 c2 c3 c4 c5 c6 c7 c8 c9 c10 where cn: "cn = (c1, c2, c3, c4, c5, c6, c7, c8, c9, c10)"
    by (metis prod_cases3)
  from assms show ?thesis
    unfolding img2img_p_def cn by (auto simp: bind_err_eq_Inr)
qed


text \<open>
  Claim C6. When \<^verbatim>\<open>controlnet_input_image\<close> is a non-empty list, the subscript
  \<^verbatim>\<open>controlnet_input_image[0]\<close> of \<^verbatim>\<open>img2img\<close> is in bounds and yields the first element,
  and computing the control image does not raise IndexError. The subscript
  \<^verbatim>\<open>controlnet_mask[0]\<close> is reached only for a non-empty list, where it yields the first
  element, so computing the control mask never raises IndexError; for the empty list the
  mask is the array of zeros of shape 512 x 512 x 3, and that is the mask of the object
  handed to the pipeline.
\<close>

theorem img2img_first_elements_in_bounds:
  assumes "imgs \<noteq> []"
  shows "getitem imgs 0 = Inr (hd imgs) \<and>
         cn_image_np env imgs \<noteq> Inl IndexError \<and>
         (masks \<noteq> [] \<longrightarrow> getitem masks 0 = Inr (hd masks)) \<and>
         cn_mask_np env masks \<noteq> Inl IndexError \<and>
         (masks = [] \<longrightarrow>
            cn_mask_np env masks = Inr (zeros_uint8 [512, 512, 3]) \<and>
            shape (zeros_uint8 [512, 512, 3]) = [512, 512, 3] \<and>
            set (data (zeros_uint8 [512, 512, 3])) \<subseteq> {0} \<and>
            (\<forall>p. img2img_p env init_images mask' mask_blur imgs masks cn params = Inr p \<longrightarrow>
                 snd (control_net_image p) = zeros_uint8 [512, 512, 3]))"
proof (intro conjI impI allI)
  show "getitem imgs 0 = Inr (hd imgs)" using assms by (rule getitem_first)
  show "cn_image_np env imgs \<noteq> Inl IndexError"
    unfolding cn_image_np_first [OF assms] by (simp split: option.splits)
  show "getitem masks 0 = Inr (hd masks)" if "masks \<noteq> []" using that by (rule getitem_first)
  show "cn_mask_np env masks \<noteq> Inl IndexError"
  proof (cases "masks = []")
    case True
    then show ?thesis by (simp add: cn_mask_np_empty)
  next
    case False
    then show ?thesis unfolding cn_mask_np_first [OF False] by (simp split: option.splits)
  qed
  show "cn_mask_np env masks = Inr (zeros_uint8 [512, 512, 3])" if "masks = []"
    using that by (simp add: cn_mask_np_empty)
  show "shape (zeros_uint8 [512, 512, 3]) = [512, 512, 3]" by (rule zeros_uint8_fields)
  show "set (data (zeros_uint8 [512, 512, 3])) \<subseteq> {0}"
    unfolding zeros_uint8_fields by (simp add: set_replicate_conv_if)
  show "snd (control_net_image p) = zeros_uint8 [512, 512, 3]"
    if "masks = []"
      and "img2img_p env init_images mask' mask_blur imgs masks cn params = Inr p" for p
  proof -
    from img2img_p_control_net_image [OF that(2)] obtain image_np mask_np where
      "cn_mask_np env masks = Inr mask_np" "control_net_image p = (image_np, mask_np)" by blast
    with that(1) show ?thesis by (simp add: cn_mask_np_empty)
  qed
qed

text \<open>The theorem at a request with one control image and no control mask.\<close>

theorem img2img_first_elements_in_bounds_witness:
  "[''R0lGODlh''] \<noteq> [] \<and>
   getitem [''R0lGODlh''] 0 = Inr ''R0lGODlh'' \<and>
   cn_image_np demo_env [''R0lGODlh''] \<noteq> Inl IndexError \<and>
   cn_mask_np demo_env [] = Inr (zeros_uint8 [512, 512, 3])"
proof -
  have 1: "[''R0lGODlh''] \<noteq> []" by simp
  note t = img2img_first_elements_in_bounds [OF 1, of demo_env "[]"]
  from t [THEN conjunct1] have 2: "getitem [''R0lGODlh''] 0 = Inr ''R0lGODlh''" by simp
  from t [THEN conjunct2, THEN conjunct1]
  have 3: "cn_image_np demo_env [''R0lGODlh''] \<noteq> Inl IndexError" .
  from t [THEN conjunct2, THEN conjunct2, THEN conjunct2, THEN conjunct2, THEN mp, OF refl,
      THEN conjunct1]
  have 4: "cn_mask_np demo_env [] = Inr (zeros_uint8 [512, 512, 3])" .
  from 1 2 3 4 show ?thesis by (intro conjI)
qed

section \<open>Properties of the routes\<close>

lemma controlnet_routes_append:
  "controlnet_routes (xs @ ys) = controlnet_routes xs @ controlnet_routes ys"
  by (simp add: controlnet_routes_def)

lemma controlnet_routes_host_callbacks:
  assumes "\<forall>cb \<in> set cbs. \<exists>rs. cb = Host_callback rs \<and> controlnet_routes rs = []"
  shows "controlnet_routes (foldl run_callback app cbs) = controlnet_routes app"
  using assms
proof (induction cbs arbitrary: app)
  case Nil
  then show ?case by simp
next
  case (Cons cb cbs)
  from Cons.prems obtain rs where cb: "cb = Host_callback rs" and rs: "controlnet_routes rs = []"
    by auto
  from Cons.prems have "\<forall>cb \<in> set cbs. \<exists>rs. cb = Host_callback rs \<and> controlnet_routes rs = []"
    by simp
  from Cons.IH [OF this, of "run_callback app cb"]
  show ?case by (simp add: cb run_callback_def controlnet_routes_append rs)
qed

lemma controlnet_routes_own:
  "controlnet_routes
     [(POST, ''/controlnet/txt2img'', Api_txt2img)] = [(POST, ''/controlnet/txt2img'', Api_txt2img)]"
  "controlnet_routes
     [(POST, ''/controlnet/img2img'', Img2img), (GET, ''/controlnet/model_list'', Model_list),
      (POST, ''/controlnet/detect'', Detect)] =
     [(POST, ''/controlnet/img2img'', Img2img), (GET, ''/controlnet/model_list'', Model_list),
      (POST, ''/controlnet/detect'', Detect)]"
  by (simp_all add: controlnet_routes_def startswith_def)

text \<open>
  Claim C7, on a host that has \<^verbatim>\<open>modules.script_callbacks.on_app_started\<close>. Loading the
  module binds \<^verbatim>\<open>api.Api\<close> to the subclass, whose constructor adds POST
  \<^verbatim>\<open>/controlnet/txt2img\<close> to the routes of the host's constructor, and it registers
  \<^verbatim>\<open>controlnet_api\<close> after the callbacks already there; \<^verbatim>\<open>controlnet_api\<close> adds POST
  \<^verbatim>\<open>/controlnet/img2img\<close>, GET \<^verbatim>\<open>/controlnet/model_list\<close> and POST \<^verbatim>\<open>/controlnet/detect\<close>.
  When neither the host's routes nor the host's callbacks have a path under
  \<^verbatim>\<open>/controlnet/\<close>, the application started has exactly these four routes there.
\<close>

theorem module_wires_four_routes:
  assumes "app_started_callbacks h = Some cbs"
  shows "api_Api (load_module h) = Api \<and>
         app_started_callbacks (load_module h) = Some (cbs @ [Controlnet_api]) \<and>
         Api_init (api_Api (load_module h)) original_routes =
           original_routes @ [(POST, ''/controlnet/txt2img'', Api_txt2img)] \<and>
         controlnet_api app =
           app @ [(POST, ''/controlnet/img2img'', Img2img),
                  (GET, ''/controlnet/model_list'', Model_list),
                  (POST, ''/controlnet/detect'', Detect)] \<and>
         (controlnet_routes original_routes = [] \<and>
          (\<forall>cb \<in> set cbs. \<exists>rs. cb = Host_callback rs \<and> controlnet_routes rs = []) \<longrightarrow>
          controlnet_routes (app_started (load_module h) original_routes) =
            [(POST, ''/controlnet/txt2img'', Api_txt2img),
             (POST, ''/controlnet/img2img'', Img2img),
             (GET, ''/controlnet/model_list'', Model_list),
             (POST, ''/controlnet/detect'', Detect)])"
proof (intro conjI impI)
  show a: "api_Api (load_module h) = Api"
    using assms by (simp add: load_module_def)
  show c: "app_started_callbacks (load_module h) = Some (cbs @ [Controlnet_api])"
    using assms by (simp add: load_module_def)
  show "Api_init (api_Api (load_module h)) original_routes =
           original_routes @ [(POST, ''/controlnet/txt2img'', Api_txt2img)]"
    unfolding a by (simp add: Api_init_def)
  show "controlnet_api app =
           app @ [(POST, ''/controlnet/img2img'', Img2img),
                  (GET, ''/controlnet/model_list'', Model_list),
                  (POST, ''/controlnet/detect'', Detect)]"
    by (simp add: controlnet_api_def)
  assume h: "controlnet_routes original_routes = [] \<and>
          (\<forall>cb \<in> set cbs. \<exists>rs. cb = Host_callback rs \<and> controlnet_routes rs = [])"
  then have h1: "controlnet_routes original_routes = []"
    and h2: "\<forall>cb \<in> set cbs. \<exists>rs. cb = Host_callback rs \<and> controlnet_routes rs = []"
    by simp_all
  have "app_started (load_module h) original_routes =
      controlnet_api (foldl run_callback
         (original_routes @ [(POST, ''/controlnet/txt2img'', Api_txt2img)]) cbs)"
    unfolding app_started_def a c by (simp add: Api_init_def run_callback_def)
  then have "controlnet_routes (app_started (load_module h) original_routes) =
      controlnet_routes (foldl run_callback
         (original_routes @ [(POST, ''/controlnet/txt2img'', Api_txt2img)]) cbs) @
      [(POST, ''/controlnet/img2img'', Img2img), (GET, ''/controlnet/model_list'', Model_list),
       (POST, ''/controlnet/detect'', Detect)]"
    by (simp only: controlnet_api_def controlnet_routes_append controlnet_routes_own)
  also have "controlnet_routes (foldl run_callback
         (original_routes @ [(POST, ''/controlnet/txt2img'', Api_txt2img)]) cbs) =
      [(POST, ''/controlnet/txt2img'', Api_txt2img)]"
    unfolding controlnet_routes_host_callbacks [OF h2] controlnet_routes_append h1
      controlnet_routes_own by simp
  finally show "controlnet_routes (app_started (load_module h) original_routes) =
            [(POST, ''/controlnet/txt2img'', Api_txt2img),
             (POST, ''/controlnet/img2img'', Img2img),
             (GET, ''/controlnet/model_list'', Model_list),
             (POST, ''/controlnet/detect'', Detect)]" by simp
qed

text \<open>The theorem on a host with one route and one callback of its own.\<close>

theorem module_wires_four_routes_witness:
  "controlnet_routes
     (app_started
        (load_module \<lparr>api_Api = OriginalApi,
                      app_started_callbacks =
                        Some [Host_callback [(GET, ''/docs'', Host_handler ''docs'')]]\<rparr>)
        [(POST, ''/sdapi/v1/txt2img'', Host_handler ''text2imgapi'')]) =
     [(POST, ''/controlnet/txt2img'', Api_txt2img),
      (POST, ''/controlnet/img2img'', Img2img),
      (GET, ''/controlnet/model_list'', Model_list),
      (POST, ''/controlnet/detect'', Detect)]"
proof -
  have 1: "app_started_callbacks \<lparr>api_Api = OriginalApi,
                      app_started_callbacks =
                        Some [Host_callback [(GET, ''/docs'', Host_handler ''docs'')]]\<rparr> =
      Some [Host_callback [(GET, ''/docs'', Host_handler ''docs'')]]" by simp
  have 2: "controlnet_routes [(POST, ''/sdapi/v1/txt2img'', Host_handler ''text2imgapi'')] = [] \<and>
      (\<forall>cb \<in> set [Host_callback [(GET, ''/docs'', Host_handler ''docs'')]].
          \<exists>rs. cb = Host_callback rs \<and> controlnet_routes rs = [])"
    by (simp add: controlnet_routes_def startswith_def)
  from module_wires_four_routes [OF 1, THEN conjunct2, THEN conjunct2, THEN conjunct2,
      THEN conjunct2, THEN mp, OF 2]
  show ?thesis .
qed

text \<open>
  Claim C7 as stated fails on a host where the import of \<^verbatim>\<open>modules.script_callbacks\<close> or
  the registration raises: \<^verbatim>\<open>except: pass\<close> swallows it, \<^verbatim>\<open>controlnet_api\<close> is never run,
  and the only route of the module is the one of the subclass.
\<close>

theorem module_wires_four_routes_counterexample:
  "controlnet_routes
     (app_started (load_module \<lparr>api_Api = OriginalApi, app_started_callbacks = None\<rparr>)
        [(POST, ''/sdapi/v1/txt2img'', Host_handler ''text2imgapi'')]) =
     [(POST, ''/controlnet/txt2img'', Api_txt2img)]"
  by (simp add: load_module_def app_started_def Api_init_def controlnet_routes_def
      startswith_def)

end
